theory Spec2Isabelle
  imports Complex_Main
begin

section \<open>Swap utilities of the wallet: a shallow embedding\<close>

text \<open>
  The functions of \<^verbatim>\<open>src/features/transactions/swap/utils.ts\<close> are embedded as HOL
  functions. A value that may be \<^verbatim>\<open>undefined\<close> or \<^verbatim>\<open>null\<close> is an \<open>option\<close>; a call that
  may throw returns \<open>js_error + 'a\<close>, with \<open>Inl\<close> the exception.
\<close>

datatype js_error = TypeError | RangeError | INVALID_ARGUMENT | SLIPPAGE_TOLERANCE | AMOUNT

subsection \<open>Decimal strings of arbitrary-precision integers\<close>

definition digit_char :: "nat \<Rightarrow> char" where
  "digit_char d = ''0123456789'' ! d"

fun string_of_nat :: "nat \<Rightarrow> string" where
  "string_of_nat n =
     (if n < 10 then [digit_char n] else string_of_nat (n div 10) @ [digit_char (n mod 10)])"

declare string_of_nat.simps [simp del]

text \<open>
  Modelled from the spec: \<^verbatim>\<open>toString()\<close> of the arbitrary-precision integer types (JSBI of
  the SDK, \<^verbatim>\<open>BigNumber\<close> of ethers; neither is under src/) gives the decimal string of the
  integer: a minus sign for a negative value, then the digits without leading zeros.
\<close>

definition decimal_string :: "int \<Rightarrow> string" where
  "decimal_string i =
     (if i < 0 then CHR ''-'' # string_of_nat (nat (- i)) else string_of_nat (nat i))"

definition digit_of :: "char \<Rightarrow> nat option" where
  "digit_of c =
     (let n = (of_char c :: nat) in if 48 \<le> n \<and> n \<le> 57 then Some (n - 48) else None)"

definition hex_digit_of :: "char \<Rightarrow> nat option" where
  "hex_digit_of c =
     (let n = (of_char c :: nat) in
      if 48 \<le> n \<and> n \<le> 57 then Some (n - 48)
      else if 97 \<le> n \<and> n \<le> 102 then Some (n - 87)
      else if 65 \<le> n \<and> n \<le> 70 then Some (n - 55)
      else None)"

text \<open>The value of a digit string in a base, most significant digit first; \<open>None\<close> when a
  character is not a digit.\<close>

fun digits_value :: "(char \<Rightarrow> nat option) \<Rightarrow> nat \<Rightarrow> nat \<Rightarrow> string \<Rightarrow> nat option" where
  "digits_value dig base acc [] = Some acc"
| "digits_value dig base acc (c # cs) =
     (case dig c of None \<Rightarrow> None | Some d \<Rightarrow> digits_value dig base (base * acc + d) cs)"

text \<open>The integer a decimal string denotes: an optional minus sign and one or more digits
  (the regular expression \<^verbatim>\<open>^-?[0-9]+$\<close>).\<close>

definition unsigned_decimal :: "string \<Rightarrow> nat option" where
  "unsigned_decimal s = (if s = [] then None else digits_value digit_of 10 0 s)"

definition unsigned_hex :: "string \<Rightarrow> nat option" where
  "unsigned_hex s =
     (case s of
        c0 # cx # ds \<Rightarrow>
          if c0 = CHR ''0'' \<and> cx = CHR ''x'' \<and> ds \<noteq> [] then digits_value hex_digit_of 16 0 ds
          else None
      | _ \<Rightarrow> None)"

definition signed_value :: "(string \<Rightarrow> nat option) \<Rightarrow> string \<Rightarrow> int option" where
  "signed_value body s =
     (case s of
        c # cs \<Rightarrow>
          if c = CHR ''-'' then map_option (\<lambda>n. - int n) (body cs) else map_option int (body s)
      | [] \<Rightarrow> None)"

definition decimal_value :: "string \<Rightarrow> int option" where
  "decimal_value s = signed_value unsigned_decimal s"


text \<open>
  Modelled from the spec: \<^verbatim>\<open>BigNumber.from\<close> of ethers (not under src/) on a string. A
  decimal integer string is its value, exactly; the library also reads the hexadecimal
  notation \<^verbatim>\<open>0x...\<close>; a malformed numeric string raises.
\<close>

definition BigNumber_from :: "string \<Rightarrow> js_error + int" where
  "BigNumber_from s =
     (case signed_value unsigned_hex s of
        Some v \<Rightarrow> Inr v
      | None \<Rightarrow> (case decimal_value s of Some v \<Rightarrow> Inr v | None \<Rightarrow> Inl INVALID_ARGUMENT))"

subsection \<open>Truthiness of optional strings\<close>

text \<open>A \<^verbatim>\<open>string | undefined\<close> is falsy when it is \<^verbatim>\<open>undefined\<close> or the empty string.\<close>

definition truthy :: "string option \<Rightarrow> bool" where
  "truthy s = (case s of None \<Rightarrow> False | Some x \<Rightarrow> x \<noteq> [])"

text \<open>\<^verbatim>\<open>a || b\<close>: the left operand when it is truthy, the right one otherwise.\<close>

definition js_or :: "string option \<Rightarrow> string option \<Rightarrow> string option" where
  "js_or a b = (if truthy a then a else b)"

subsection \<open>sumGasFees\<close>

definition sumGasFees :: "string option \<Rightarrow> string option \<Rightarrow> js_error + string option" where
  "sumGasFees gasFee1 gasFee2 =
     (if \<not> truthy gasFee1 \<or> \<not> truthy gasFee2 then Inr (js_or gasFee1 gasFee2)
      else
        (case BigNumber_from (the gasFee1) of
           Inl e \<Rightarrow> Inl e
         | Inr a \<Rightarrow>
             (case BigNumber_from (the gasFee2) of
                Inl e \<Rightarrow> Inl e
              | Inr b \<Rightarrow> Inr (Some (decimal_string (a + b))))))"

subsection \<open>Numbers\<close>

text \<open>
  A JavaScript \<^verbatim>\<open>number\<close> is an IEEE 754 binary64 value: not-a-number, an infinity with
  its sign (\<open>True\<close> for the negative one), or a finite value \<open>Finite m e\<close> that stands for
  \<open>m * 2 ^ e\<close>, with \<open>\<bar>m\<bar> < 2 ^ 53\<close> and \<open>- 1074 \<le> e\<close>. Negative zero is not told from zero:
  the code only rounds the number and converts it to a big integer, and both zeros give the
  integer 0.
\<close>

datatype number = NaN | Infinity bool | Finite int int

definition number_value :: "int \<Rightarrow> int \<Rightarrow> rat" where
  "number_value m e =
     (if 0 \<le> e then of_int (m * 2 ^ nat e) else of_int m / of_int (2 ^ nat (- e)))"

function bit_length :: "int \<Rightarrow> nat" where
  "bit_length a = (if a \<le> 0 then 0 else Suc (bit_length (a div 2)))"
  by pat_completeness auto
termination
  by (relation "measure nat") auto

declare bit_length.simps [simp del]

text \<open>Dropping the \<open>k\<close> low bits of \<open>a\<close>, to the nearest value, a tie to the even one.\<close>

definition round_half_even :: "int \<Rightarrow> nat \<Rightarrow> int" where
  "round_half_even a k =
     (let q = a div 2 ^ k; r = a mod 2 ^ k; h = 2 ^ (k - 1)
      in if r < h then q else if h < r then q + 1 else if even q then q else q + 1)"

text \<open>
  The binary64 value nearest to the exact \<open>m * 2 ^ e\<close> (round to nearest, ties to even): the
  significand keeps 53 bits, the exponent does not go below \<open>- 1074\<close> (subnormal values),
  and a result of \<open>2 ^ 1024\<close> or more is an infinity.
\<close>

definition to_double :: "int \<Rightarrow> int \<Rightarrow> number" where
  "to_double m e =
     (if m = 0 then Finite 0 0
      else
        let a = \<bar>m\<bar>;
            k = max (int (bit_length a) - 53) (- 1074 - e);
            a' = (if 0 < k then round_half_even a (nat k) else a);
            e' = (if 0 < k then e + k else e)
        in if 1024 < int (bit_length a') + e' then Infinity (m < 0)
           else Finite (sgn m * a') e')"

text \<open>
  The words of IEEE 754 for the product, to compare \<open>to_double\<close> with: the binary64 values,
  and "\<open>p\<close> is the binary64 value nearest to \<open>x\<close>, the one with the even significand when
  two are equally near" (in a tie the two are neighbours, so the significand of \<open>p\<close> is \<open>p\<close>
  divided by their distance).
\<close>

definition is_binary64 :: "rat \<Rightarrow> bool" where
  "is_binary64 q =
     (\<exists>M E. \<bar>M\<bar> < 2 ^ 53 \<and> - 1074 \<le> E \<and> E \<le> 971 \<and> q = number_value M E)"

definition nearest_binary64 :: "rat \<Rightarrow> rat \<Rightarrow> bool" where
  "nearest_binary64 x p =
     (is_binary64 p
      \<and> (\<forall>q. is_binary64 q \<longrightarrow> \<bar>p - x\<bar> \<le> \<bar>q - x\<bar>)
      \<and> (\<forall>q. is_binary64 q \<and> q \<noteq> p \<and> \<bar>q - x\<bar> = \<bar>p - x\<bar>
             \<longrightarrow> (\<exists>j. p = of_int (2 * j) * \<bar>q - p\<bar>)))"

text \<open>The operator \<^verbatim>\<open>*\<close> on numbers: the exact product, rounded once.\<close>

fun number_times :: "number \<Rightarrow> number \<Rightarrow> number" where
  "number_times NaN y = NaN"
| "number_times x NaN = NaN"
| "number_times (Infinity s) (Infinity t) = Infinity (s \<noteq> t)"
| "number_times (Infinity s) (Finite m e) = (if m = 0 then NaN else Infinity (s \<noteq> (m < 0)))"
| "number_times (Finite m e) (Infinity s) = (if m = 0 then NaN else Infinity (s \<noteq> (m < 0)))"
| "number_times (Finite m1 e1) (Finite m2 e2) = to_double (m1 * m2) (e1 + e2)"

text \<open>\<^verbatim>\<open>Math.round\<close>: the integer nearest to the argument, the larger one of two that are
  equally near; not-a-number and the infinities are returned as they are.\<close>

fun Math_round :: "number \<Rightarrow> number" where
  "Math_round NaN = NaN"
| "Math_round (Infinity s) = Infinity s"
| "Math_round (Finite m e) =
     (if 0 \<le> e then Finite m e
      else Finite ((m + 2 ^ (nat (- e) - 1)) div 2 ^ nat (- e)) 0)"

subsection \<open>Big integers and fractions of the SDK\<close>

text \<open>
  Modelled from the spec: \<^verbatim>\<open>JSBI.BigInt\<close> on a number (the big-integer library of the SDK,
  not under src/): an integral finite number is that integer; any other number raises a
  \<^verbatim>\<open>RangeError\<close>.
\<close>

fun JSBI_BigInt :: "number \<Rightarrow> js_error + int" where
  "JSBI_BigInt NaN = Inl RangeError"
| "JSBI_BigInt (Infinity s) = Inl RangeError"
| "JSBI_BigInt (Finite m e) =
     (if 0 \<le> e then Inr (m * 2 ^ nat e)
      else if 2 ^ nat (- e) dvd m then Inr (m div 2 ^ nat (- e))
      else Inl RangeError)"

text \<open>Modelled from the spec: \<^verbatim>\<open>JSBI.divide\<close> (not under src/), the integer quotient
  truncated towards zero; a zero divisor raises.\<close>

definition JSBI_divide :: "int \<Rightarrow> int \<Rightarrow> js_error + int" where
  "JSBI_divide a b =
     (if b = 0 then Inl RangeError else Inr (sgn a * sgn b * (\<bar>a\<bar> div \<bar>b\<bar>)))"

text \<open>
  Modelled from the spec: the class \<^verbatim>\<open>Fraction\<close> of the SDK core (not under src/), a pair
  of big integers that is never reduced, with the operations the slippage bounds use.
  \<^verbatim>\<open>Percent\<close> and \<^verbatim>\<open>Price\<close> extend it.
\<close>

record Fraction =
  numerator :: int
  denominator :: int

definition Fraction_of :: "int \<Rightarrow> Fraction" where
  "Fraction_of n = \<lparr>numerator = n, denominator = 1\<rparr>"

definition Fraction_add :: "Fraction \<Rightarrow> Fraction \<Rightarrow> Fraction" where
  "Fraction_add x y =
     (if denominator x = denominator y
      then \<lparr>numerator = numerator x + numerator y, denominator = denominator x\<rparr>
      else \<lparr>numerator = numerator x * denominator y + numerator y * denominator x,
            denominator = denominator x * denominator y\<rparr>)"

definition Fraction_invert :: "Fraction \<Rightarrow> Fraction" where
  "Fraction_invert x = \<lparr>numerator = denominator x, denominator = numerator x\<rparr>"

definition Fraction_multiply :: "Fraction \<Rightarrow> Fraction \<Rightarrow> Fraction" where
  "Fraction_multiply x y =
     \<lparr>numerator = numerator x * numerator y, denominator = denominator x * denominator y\<rparr>"

definition Fraction_lessThan :: "Fraction \<Rightarrow> Fraction \<Rightarrow> bool" where
  "Fraction_lessThan x y = (numerator x * denominator y < numerator y * denominator x)"

definition Fraction_quotient :: "Fraction \<Rightarrow> js_error + int" where
  "Fraction_quotient x = JSBI_divide (numerator x) (denominator x)"

text \<open>Modelled from the spec: the constructor \<^verbatim>\<open>new Percent(numerator, denominator)\<close> of the
  SDK core (not under src/) on two numbers; both go through \<^verbatim>\<open>JSBI.BigInt\<close>.\<close>

definition new_Percent :: "number \<Rightarrow> number \<Rightarrow> js_error + Fraction" where
  "new_Percent n d =
     (case JSBI_BigInt n of
        Inl err \<Rightarrow> Inl err
      | Inr n' \<Rightarrow>
          (case JSBI_BigInt d of
             Inl err \<Rightarrow> Inl err
           | Inr d' \<Rightarrow> Inr \<lparr>numerator = n', denominator = d'\<rparr>))"

subsection \<open>slippageToleranceToPercent\<close>

definition slippageToleranceToPercent :: "number \<Rightarrow> js_error + Fraction" where
  "slippageToleranceToPercent slippage =
     (let basisPoints = Math_round (number_times slippage (Finite 100 0))
      in new_Percent basisPoints (Finite 10000 0))"

subsection \<open>Currencies, amounts, prices and trades\<close>

text \<open>
  The SDK's values are records of the fields the functions read. \<open>wrapped\<close> is the token a
  currency wraps to (the token itself for a token); \<open>quotient'\<close> is the integer
  \<^verbatim>\<open>quotient\<close> of a currency amount; \<open>value'\<close> is the field \<^verbatim>\<open>value\<close>.
\<close>

record Token =
  address :: string

record Currency =
  chainId :: nat
  isNative :: bool
  symbol :: "string option"
  wrapped :: Token

datatype TradeType = EXACT_INPUT | EXACT_OUTPUT

record CurrencyAmount =
  currency :: Currency
  quotient' :: int

record Price = Fraction +
  baseCurrency :: Currency
  quoteCurrency :: Currency

record MethodParameters =
  calldata :: string
  value' :: string

record QuoteResult =
  methodParameters :: "MethodParameters option"

datatype TransactionType = Swap

datatype SwapTransactionInfo =
    ExactInputSwapTransactionInfo
      (type: TransactionType) (inputCurrencyId: string) (outputCurrencyId: string)
      (tradeType: TradeType) (inputCurrencyAmountRaw: string)
      (expectedOutputCurrencyAmountRaw: string) (minimumOutputCurrencyAmountRaw: string)
  | ExactOutputSwapTransactionInfo
      (type: TransactionType) (inputCurrencyId: string) (outputCurrencyId: string)
      (tradeType: TradeType) (outputCurrencyAmountRaw: string)
      (expectedInputCurrencyAmountRaw: string) (maximumInputCurrencyAmountRaw: string)

record Trade =
  tradeType :: TradeType
  inputAmount :: CurrencyAmount
  outputAmount :: CurrencyAmount
  executionPrice :: Price
  slippageTolerance :: number
  quote :: "QuoteResult option"

text \<open>Modelled from the spec: \<^verbatim>\<open>Price.invert()\<close> of the SDK core (not under src/), the
  inverted price: the two currencies and the two integers change places.\<close>

definition Price_invert :: "Price \<Rightarrow> Price" where
  "Price_invert p =
     \<lparr>numerator = denominator p, denominator = numerator p,
      baseCurrency = quoteCurrency p, quoteCurrency = baseCurrency p\<rparr>"

definition MaxUint256 :: int where
  "MaxUint256 = 2 ^ 256 - 1"

text \<open>Modelled from the spec: \<^verbatim>\<open>CurrencyAmount.fromRawAmount\<close> of the SDK core (not under
  src/); an amount above the largest 256-bit value is rejected.\<close>

definition fromRawAmount :: "Currency \<Rightarrow> int \<Rightarrow> js_error + CurrencyAmount" where
  "fromRawAmount c rawAmount =
     (if rawAmount \<le> MaxUint256 then Inr \<lparr>currency = c, quotient' = rawAmount\<rparr>
      else Inl AMOUNT)"

text \<open>
  Modelled from the spec: \<^verbatim>\<open>Trade.minimumAmountOut\<close> of the router SDK (not under src/),
  the percent-based minimum bound. A negative slippage tolerance is rejected; for an
  exact-output trade the output is not adjusted; otherwise the minimum is the expected
  output multiplied by the inverse of one plus the tolerance, truncated to an integer.
\<close>

definition minimumAmountOut :: "Trade \<Rightarrow> Fraction \<Rightarrow> js_error + CurrencyAmount" where
  "minimumAmountOut trade slippage =
     (if Fraction_lessThan slippage (Fraction_of 0) then Inl SLIPPAGE_TOLERANCE
      else if tradeType trade = EXACT_OUTPUT then Inr (outputAmount trade)
      else
        (case Fraction_quotient
                (Fraction_multiply (Fraction_invert (Fraction_add (Fraction_of 1) slippage))
                   (Fraction_of (quotient' (outputAmount trade)))) of
           Inl err \<Rightarrow> Inl err
         | Inr slippageAdjustedAmountOut \<Rightarrow>
             fromRawAmount (currency (outputAmount trade)) slippageAdjustedAmountOut))"

text \<open>
  Modelled from the spec: \<^verbatim>\<open>Trade.maximumAmountIn\<close> of the router SDK (not under src/),
  the percent-based maximum bound. A negative slippage tolerance is rejected; for an
  exact-input trade the input is not adjusted; otherwise the maximum is the expected input
  multiplied by one plus the tolerance, truncated to an integer.
\<close>

definition maximumAmountIn :: "Trade \<Rightarrow> Fraction \<Rightarrow> js_error + CurrencyAmount" where
  "maximumAmountIn trade slippage =
     (if Fraction_lessThan slippage (Fraction_of 0) then Inl SLIPPAGE_TOLERANCE
      else if tradeType trade = EXACT_INPUT then Inr (inputAmount trade)
      else
        (case Fraction_quotient
                (Fraction_multiply (Fraction_add (Fraction_of 1) slippage)
                   (Fraction_of (quotient' (inputAmount trade)))) of
           Inl err \<Rightarrow> Inl err
         | Inr slippageAdjustedAmountIn \<Rightarrow>
             fromRawAmount (currency (inputAmount trade)) slippageAdjustedAmountIn))"

subsection \<open>tradeToTransactionInfo\<close>

text \<open>\<^verbatim>\<open>currencyId\<close> (src/utils/currencyId, not under src/) is a parameter.\<close>

definition tradeToTransactionInfo ::
  "(Currency \<Rightarrow> string) \<Rightarrow> Trade \<Rightarrow> js_error + SwapTransactionInfo" where
  "tradeToTransactionInfo currencyId trade =
     (case slippageToleranceToPercent (slippageTolerance trade) of
        Inl err \<Rightarrow> Inl err
      | Inr slippage \<Rightarrow>
          if tradeType trade = EXACT_INPUT
          then
            (case minimumAmountOut trade slippage of
               Inl err \<Rightarrow> Inl err
             | Inr minimumOut \<Rightarrow>
                 Inr (ExactInputSwapTransactionInfo Swap
                        (currencyId (currency (inputAmount trade)))
                        (currencyId (currency (outputAmount trade)))
                        EXACT_INPUT
                        (decimal_string (quotient' (inputAmount trade)))
                        (decimal_string (quotient' (outputAmount trade)))
                        (decimal_string (quotient' minimumOut))))
          else
            (case maximumAmountIn trade slippage of
               Inl err \<Rightarrow> Inl err
             | Inr maximumIn \<Rightarrow>
                 Inr (ExactOutputSwapTransactionInfo Swap
                        (currencyId (currency (inputAmount trade)))
                        (currencyId (currency (outputAmount trade)))
                        EXACT_OUTPUT
                        (decimal_string (quotient' (outputAmount trade)))
                        (decimal_string (quotient' (inputAmount trade)))
                        (decimal_string (quotient' maximumIn)))))"

subsection \<open>requireAcceptNewTrade\<close>

text \<open>The optional chain \<^verbatim>\<open>trade?.quote?.methodParameters?.calldata\<close>: \<^verbatim>\<open>undefined\<close> as soon
  as one link is absent.\<close>

definition calldata_of :: "Trade option \<Rightarrow> string option" where
  "calldata_of trade =
     (case trade of
        None \<Rightarrow> None
      | Some t \<Rightarrow>
          (case quote t of
             None \<Rightarrow> None
           | Some q \<Rightarrow>
               (case methodParameters q of None \<Rightarrow> None | Some mp \<Rightarrow> Some (calldata mp))))"

definition requireAcceptNewTrade :: "Trade option \<Rightarrow> Trade option \<Rightarrow> bool" where
  "requireAcceptNewTrade oldTrade newTrade = (calldata_of oldTrade \<noteq> calldata_of newTrade)"

text \<open>The spec's words: a trade has the calldata \<open>c\<close> when the trade, its quote and the
  quote's method parameters are all present and the calldata of these is \<open>c\<close>.\<close>

definition has_calldata :: "Trade option \<Rightarrow> string \<Rightarrow> bool" where
  "has_calldata trade c =
     (\<exists>t q mp. trade = Some t \<and> quote t = Some q \<and> methodParameters q = Some mp
        \<and> calldata mp = c)"

subsection \<open>getRateToDisplay\<close>

text \<open>A template literal prints an absent symbol as \<^verbatim>\<open>undefined\<close>.\<close>

definition template :: "string option \<Rightarrow> string" where
  "template s = (case s of None \<Rightarrow> ''undefined'' | Some x \<Rightarrow> x)"

text \<open>\<^verbatim>\<open>formatPrice\<close> (src/utils/format, not under src/), at \<^verbatim>\<open>NumberType.SwapPrice\<close>, is a
  parameter.\<close>

definition getRateToDisplay :: "(Price \<Rightarrow> string) \<Rightarrow> Trade \<Rightarrow> bool \<Rightarrow> string" where
  "getRateToDisplay formatPrice trade showInverseRate =
     (let price = (if showInverseRate then Price_invert (executionPrice trade)
                   else executionPrice trade);
          formattedPrice = formatPrice price;
          quoteCurrency' = quoteCurrency (executionPrice trade);
          baseCurrency' = baseCurrency (executionPrice trade);
          rate = ''1 '' @ template (symbol quoteCurrency') @ '' = '' @ formattedPrice
                   @ '' '' @ template (symbol baseCurrency');
          inverseRate = ''1 '' @ template (symbol baseCurrency') @ '' = '' @ formattedPrice
                   @ '' '' @ template (symbol quoteCurrency')
      in if showInverseRate then rate else inverseRate)"

subsection \<open>clearStaleTrades\<close>

text \<open>\<^verbatim>\<open>areAddressesEqual\<close> (src/utils/addresses, not under src/) is a parameter.\<close>

definition clearStaleTrades ::
  "(string \<Rightarrow> string \<Rightarrow> bool) \<Rightarrow> Trade \<Rightarrow> Currency option \<Rightarrow> Currency option \<Rightarrow> Trade option"
  where
  "clearStaleTrades areAddressesEqual trade currencyIn currencyOut =
     (let currencyInAddress = map_option (\<lambda>c. address (wrapped c)) currencyIn;
          currencyOutAddress = map_option (\<lambda>c. address (wrapped c)) currencyOut;
          inputsMatch =
            (truthy currencyInAddress \<and>
             areAddressesEqual (the currencyInAddress)
               (address (wrapped (currency (inputAmount trade)))));
          outputsMatch =
            (truthy currencyOutAddress \<and>
             areAddressesEqual (the currencyOutAddress)
               (address (wrapped (currency (outputAmount trade)))))
      in if inputsMatch \<and> outputsMatch then Some trade else None)"

subsection \<open>getWrapType\<close>

datatype WrapType = NotApplicable | Wrap | Unwrap

text \<open>
  The table \<^verbatim>\<open>WRAPPED_NATIVE_CURRENCY\<close> (src/constants/tokens) and the helpers
  \<^verbatim>\<open>currencyId\<close> and \<^verbatim>\<open>areCurrencyIdsEqual\<close> (src/utils/currencyId) are not under src/ and
  are parameters. A chain without an entry gives \<^verbatim>\<open>undefined\<close>, and taking the currency id
  of \<^verbatim>\<open>undefined\<close> raises a \<^verbatim>\<open>TypeError\<close>. The test
  \<^verbatim>\<open>areCurrencyIdsEqual(currencyId(c), currencyId(weth))\<close> is \<open>idEqualsWrapped\<close>; the operator
  \<^verbatim>\<open>&&\<close> evaluates it only when its left operand holds.
\<close>

definition idEqualsWrapped ::
  "(Currency \<Rightarrow> string) \<Rightarrow> (string \<Rightarrow> string \<Rightarrow> bool) \<Rightarrow> Currency \<Rightarrow> Currency option
     \<Rightarrow> js_error + bool" where
  "idEqualsWrapped currencyId areCurrencyIdsEqual c weth =
     (case weth of
        None \<Rightarrow> Inl TypeError
      | Some w \<Rightarrow> Inr (areCurrencyIdsEqual (currencyId c) (currencyId w)))"

definition getWrapType ::
  "(nat \<Rightarrow> Currency option) \<Rightarrow> (Currency \<Rightarrow> string) \<Rightarrow> (string \<Rightarrow> string \<Rightarrow> bool)
     \<Rightarrow> Currency option \<Rightarrow> Currency option \<Rightarrow> js_error + WrapType" where
  "getWrapType WRAPPED_NATIVE_CURRENCY currencyId areCurrencyIdsEqual
       inputCurrency outputCurrency =
     (case (inputCurrency, outputCurrency) of
        (Some i, Some out) \<Rightarrow>
          if chainId i \<noteq> chainId out then Inr NotApplicable
          else
            (let weth = WRAPPED_NATIVE_CURRENCY (chainId i)
             in case (if isNative i
                      then idEqualsWrapped currencyId areCurrencyIdsEqual out weth
                      else Inr False) of
                  Inl err \<Rightarrow> Inl err
                | Inr True \<Rightarrow> Inr Wrap
                | Inr False \<Rightarrow>
                    (case (if isNative out
                           then idEqualsWrapped currencyId areCurrencyIdsEqual i weth
                           else Inr False) of
                       Inl err \<Rightarrow> Inl err
                     | Inr True \<Rightarrow> Inr Unwrap
                     | Inr False \<Rightarrow> Inr NotApplicable))
      | _ \<Rightarrow> Inr NotApplicable)"

subsection \<open>getSwapMethodParameters\<close>

text \<open>
  The two router SDKs are not under src/. The function returns what the SDK call it makes
  returns, so its result is the call itself: which SDK function, on which trade, with
  which options. The permit message and the raw permit are opaque (type parameters);
  \<open>Permit2Permit signature message\<close> is the object
  \<^verbatim>\<open>{ signature: permit2Signature.signature, ...permit2Signature.permitMessage }\<close>.
\<close>

record 'm PermitSignatureInfo =
  signature :: string
  permitMessage :: 'm

datatype 'm Permit2Permit = Permit2Permit string 'm

record 'i RouterOptions =
  slippageToleranceOption :: Fraction
  recipient :: string
  inputTokenPermit :: "'i option"

datatype ('m, 'p) RouterCall =
    UniversalSwapRouter_swapERC20CallParameters Trade "'m Permit2Permit RouterOptions"
  | SwapRouter_swapCallParameters Trade "'p RouterOptions"

definition getSwapMethodParameters ::
  "'m PermitSignatureInfo option \<Rightarrow> Trade \<Rightarrow> string \<Rightarrow> 'p option \<Rightarrow> bool
     \<Rightarrow> js_error + ('m, 'p) RouterCall" where
  "getSwapMethodParameters permit2Signature trade address' permitInfo universalRouterEnabled =
     (case slippageToleranceToPercent (slippageTolerance trade) of
        Inl err \<Rightarrow> Inl err
      | Inr slippageTolerancePercent \<Rightarrow>
          if universalRouterEnabled \<or> permit2Signature \<noteq> None
          then
            Inr (UniversalSwapRouter_swapERC20CallParameters trade
                   (case permit2Signature of
                      Some p \<Rightarrow>
                        \<lparr>slippageToleranceOption = slippageTolerancePercent,
                         recipient = address',
                         inputTokenPermit = Some (Permit2Permit (signature p) (permitMessage p))\<rparr>
                    | None \<Rightarrow>
                        \<lparr>slippageToleranceOption = slippageTolerancePercent,
                         recipient = address', inputTokenPermit = None\<rparr>))
          else
            Inr (SwapRouter_swapCallParameters trade
                   (case permitInfo of
                      Some p \<Rightarrow>
                        \<lparr>slippageToleranceOption = slippageTolerancePercent,
                         recipient = address', inputTokenPermit = Some p\<rparr>
                    | None \<Rightarrow>
                        \<lparr>slippageToleranceOption = slippageTolerancePercent,
                         recipient = address', inputTokenPermit = None\<rparr>)))"

subsection \<open>Example values\<close>

text \<open>The values the theorems are instantiated at: three currencies of chain 1, a trade
  of 1000 units of ETH for 2000 units of DAI with a slippage tolerance of 0.5, and
  instances of the parameters (a currency id of chain and address, an equality that
  ignores the case of letters, a table with an entry for chain 1 only).\<close>

definition toLowerCase :: "string \<Rightarrow> string" where
  "toLowerCase s =
     map (\<lambda>c. let n = (of_char c :: nat) in if 65 \<le> n \<and> n \<le> 90 then char_of (n + 32) else c) s"

abbreviation ETH :: Currency where
  "ETH \<equiv> \<lparr>chainId = 1, isNative = True, symbol = Some ''ETH'',
           wrapped = \<lparr>address = ''0xC02aaA39b223FE8D0A0e5C4F27eAD9083C756Cc2''\<rparr>\<rparr>"

abbreviation WETH :: Currency where
  "WETH \<equiv> \<lparr>chainId = 1, isNative = False, symbol = Some ''WETH'',
            wrapped = \<lparr>address = ''0xC02aaA39b223FE8D0A0e5C4F27eAD9083C756Cc2''\<rparr>\<rparr>"

abbreviation DAI :: Currency where
  "DAI \<equiv> \<lparr>chainId = 1, isNative = False, symbol = Some ''DAI'',
           wrapped = \<lparr>address = ''0x6B175474E89094C44Da98b954EedeAC495271d0F''\<rparr>\<rparr>"

abbreviation example_quote :: "string \<Rightarrow> QuoteResult option" where
  "example_quote data \<equiv>
     Some \<lparr>methodParameters = Some \<lparr>calldata = data, value' = ''0x00''\<rparr>\<rparr>"

abbreviation example_trade :: "TradeType \<Rightarrow> Trade" where
  "example_trade tt \<equiv>
     \<lparr>tradeType = tt,
      inputAmount = \<lparr>currency = ETH, quotient' = 1000\<rparr>,
      outputAmount = \<lparr>currency = DAI, quotient' = 2000\<rparr>,
      executionPrice = \<lparr>numerator = 2000, denominator = 1000,
                         baseCurrency = ETH, quoteCurrency = DAI\<rparr>,
      slippageTolerance = Finite 1 (- 1),
      quote = example_quote ''0x3593564c''\<rparr>"

abbreviation example_currencyId :: "Currency \<Rightarrow> string" where
  "example_currencyId c \<equiv>
     decimal_string (int (chainId c)) @ ''-''
       @ (if isNative c then ''0xEeeeeEeeeEeEeeEeEeEeeEEEeeeeEeeeeeeeEEeE'' else address (wrapped c))"

abbreviation example_areEqual :: "string \<Rightarrow> string \<Rightarrow> bool" where
  "example_areEqual a b \<equiv> toLowerCase a = toLowerCase b"

abbreviation example_table :: "nat \<Rightarrow> Currency option" where
  "example_table n \<equiv> (if n = 1 then Some WETH else None)"

section \<open>Properties\<close>

subsection \<open>Decimal strings\<close>

lemma digit_of_digit_char: "d < 10 \<Longrightarrow> digit_of (digit_char d) = Some d"
proof -
  assume "d < 10"
  then have "d \<in> {0, 1, 2, 3, 4, 5, 6, 7, 8, 9}" by auto
  then show ?thesis by (auto simp: digit_of_def digit_char_def)
qed

lemma digits_value_append:
  "digits_value dig b acc (xs @ ys) =
     (case digits_value dig b acc xs of None \<Rightarrow> None | Some a \<Rightarrow> digits_value dig b a ys)"
  by (induction xs arbitrary: acc) (auto split: option.splits)

lemma digits_value_string_of_nat:
  "digits_value digit_of 10 acc (string_of_nat n) = Some (acc * 10 ^ length (string_of_nat n) + n)"
proof (induction n arbitrary: acc rule: string_of_nat.induct)
  case (1 n)
  show ?case
  proof (cases "n < 10")
    case True
    then show ?thesis
      by (subst (1 2) string_of_nat.simps) (simp add: digit_of_digit_char)
  next
    case False
    have m: "n mod 10 < 10" by simp
    from False 1 [of acc] show ?thesis
      by (subst (1 2) string_of_nat.simps)
        (simp add: digits_value_append digit_of_digit_char [OF m] algebra_simps)
  qed
qed

lemma string_of_nat_nonempty: "string_of_nat n \<noteq> []"
  by (subst string_of_nat.simps) simp

lemma string_of_nat_no_minus: "hd (string_of_nat n) \<noteq> CHR ''-''"
proof (induction n rule: string_of_nat.induct)
  case (1 n)
  show ?case
  proof (cases "n < 10")
    case True
    then have "n \<in> {0, 1, 2, 3, 4, 5, 6, 7, 8, 9}" by auto
    then show ?thesis
      by (subst string_of_nat.simps) (auto simp: digit_char_def)
  next
    case False
    with 1 show ?thesis
      by (subst string_of_nat.simps) (simp add: string_of_nat_nonempty)
  qed
qed

lemma unsigned_decimal_string_of_nat: "unsigned_decimal (string_of_nat n) = Some n"
  by (simp add: unsigned_decimal_def string_of_nat_nonempty digits_value_string_of_nat)

lemma decimal_value_decimal_string: "decimal_value (decimal_string i) = Some i"
proof (cases "i < 0")
  case True
  then show ?thesis
    by (simp add: decimal_value_def signed_value_def decimal_string_def
        unsigned_decimal_string_of_nat)
next
  case False
  obtain c cs where s: "string_of_nat (nat i) = c # cs"
    using string_of_nat_nonempty [of "nat i"] by (cases "string_of_nat (nat i)") auto
  with string_of_nat_no_minus [of "nat i"] have c: "c \<noteq> CHR ''-''" by simp
  have "unsigned_decimal (c # cs) = Some (nat i)"
    using unsigned_decimal_string_of_nat [of "nat i"] s by simp
  with False c s show ?thesis
    by (simp add: decimal_value_def signed_value_def decimal_string_def)
qed

lemma unsigned_decimal_not_hex: "unsigned_decimal s = Some n \<Longrightarrow> unsigned_hex s = None"
  by (auto simp: unsigned_decimal_def unsigned_hex_def digit_of_def
      split: list.splits if_splits option.splits)

lemma decimal_not_hex: "decimal_value s = Some x \<Longrightarrow> signed_value unsigned_hex s = None"
  by (auto simp: decimal_value_def signed_value_def unsigned_decimal_not_hex
      split: list.splits if_splits)

lemma BigNumber_from_decimal: "decimal_value s = Some x \<Longrightarrow> BigNumber_from s = Inr x"
  by (simp add: BigNumber_from_def decimal_not_hex)

lemma decimal_nonempty: "decimal_value s = Some x \<Longrightarrow> s \<noteq> []"
  by (auto simp: decimal_value_def signed_value_def)

subsection \<open>sumGasFees\<close>

text \<open>
  Claim C5. For two optional decimal-integer-string arguments, \<open>sumGasFees\<close> returns the
  exact integer sum as a decimal string when both are present (the string read back is
  the sum, whatever its size), the present one unchanged when exactly one is present, and
  an absent value when neither is; \<open>sumGasFees("100", "200") = "300"\<close>,
  \<open>sumGasFees(undefined, "200") = "200"\<close> and \<open>sumGasFees(undefined, undefined)\<close> is
  \<open>undefined\<close>.
\<close>

theorem sumGasFees_contract:
  assumes "decimal_value a = Some x" and "decimal_value b = Some y"
  shows "sumGasFees (Some a) (Some b) = Inr (Some (decimal_string (x + y)))
       \<and> decimal_value (decimal_string (x + y)) = Some (x + y)
       \<and> sumGasFees (Some a) None = Inr (Some a)
       \<and> sumGasFees None (Some b) = Inr (Some b)
       \<and> sumGasFees None None = Inr None
       \<and> sumGasFees (Some ''100'') (Some ''200'') = Inr (Some ''300'')
       \<and> sumGasFees None (Some ''200'') = Inr (Some ''200'')"
proof -
  have ne: "a \<noteq> []" "b \<noteq> []"
    using assms by (auto dest: decimal_nonempty)
  have 1: "sumGasFees (Some a) (Some b) = Inr (Some (decimal_string (x + y)))"
    using assms ne by (simp add: sumGasFees_def truthy_def BigNumber_from_decimal)
  have 2: "sumGasFees (Some a) None = Inr (Some a)"
    using ne by (simp add: sumGasFees_def truthy_def js_or_def)
  have 3: "sumGasFees None (Some b) = Inr (Some b)"
    by (simp add: sumGasFees_def truthy_def js_or_def)
  have 4: "sumGasFees None None = Inr None"
    by (simp add: sumGasFees_def truthy_def js_or_def)
  have 5: "sumGasFees (Some ''100'') (Some ''200'') = Inr (Some ''300'')"
    by (simp add: sumGasFees_def truthy_def BigNumber_from_def signed_value_def
        unsigned_hex_def decimal_value_def unsigned_decimal_def digit_of_def
        decimal_string_def string_of_nat.simps digit_char_def)
  have 6: "sumGasFees None (Some ''200'') = Inr (Some ''200'')"
    by (simp add: sumGasFees_def truthy_def js_or_def)
  from 1 2 3 4 5 6 show ?thesis
    by (simp add: decimal_value_decimal_string)
qed

theorem sumGasFees_contract_witness:
  "decimal_value ''12345678901234567890123'' = Some 12345678901234567890123
   \<and> decimal_value ''-77'' = Some (- 77)
   \<and> sumGasFees (Some ''12345678901234567890123'') (Some ''-77'')
       = Inr (Some ''12345678901234567890046'')
   \<and> sumGasFees (Some ''12345678901234567890123'') None
       = Inr (Some ''12345678901234567890123'')
   \<and> sumGasFees None (Some ''-77'') = Inr (Some ''-77'')"
proof -
  have a: "decimal_value ''12345678901234567890123'' = Some 12345678901234567890123"
    by (simp add: decimal_value_def signed_value_def unsigned_decimal_def digit_of_def)
  have b: "decimal_value ''-77'' = Some (- 77)"
    by (simp add: decimal_value_def signed_value_def unsigned_decimal_def digit_of_def)
  have s: "decimal_string (12345678901234567890123 + - 77) = ''12345678901234567890046''"
    by (simp add: decimal_string_def string_of_nat.simps digit_char_def)
  from sumGasFees_contract [OF a b] a b s show ?thesis by simp
qed

text \<open>
  Claim C10. \<open>sumGasFees\<close> treats the empty string as an absent value: for every string
  \<open>s\<close>, also one that is no number, \<open>sumGasFees("", s)\<close> and \<open>sumGasFees(s, "")\<close> return \<open>s\<close>
  and no arithmetic is performed (nothing is raised), and \<open>sumGasFees("", "")\<close> returns the
  empty string, a present value, not \<open>undefined\<close>.
\<close>

theorem sumGasFees_empty_string:
  "sumGasFees (Some []) (Some s) = Inr (Some s)
   \<and> sumGasFees (Some s) (Some []) = Inr (Some s)
   \<and> sumGasFees (Some []) (Some []) = Inr (Some [])"
  by (simp add: sumGasFees_def truthy_def js_or_def)

theorem sumGasFees_empty_string_witness:
  "sumGasFees (Some []) (Some ''not a number'') = Inr (Some ''not a number'')
   \<and> sumGasFees (Some ''not a number'') (Some []) = Inr (Some ''not a number'')
   \<and> sumGasFees (Some []) (Some []) = Inr (Some [])"
  using sumGasFees_empty_string [of "''not a number''"] by simp

subsection \<open>Numbers\<close>

text \<open>A product that is a binary64 value is not rounded. Then four products that are:
  \<open>0.1 * 3\<close>, \<open>1.005 * 100\<close>, an overflow and a subnormal tie.\<close>

lemma bit_length_le: "a < 2 ^ n \<Longrightarrow> bit_length a \<le> n"
proof (induction n arbitrary: a)
  case 0
  then show ?case by (subst bit_length.simps) simp
next
  case (Suc n)
  show ?case
  proof (cases "a \<le> 0")
    case True
    then show ?thesis by (subst bit_length.simps) simp
  next
    case False
    from Suc.prems have "a div 2 < 2 ^ n" by simp
    from Suc.IH [OF this] False show ?thesis
      by (subst bit_length.simps) simp
  qed
qed

lemma to_double_exact:
  assumes "\<bar>m\<bar> < 2 ^ 53" and "- 1074 \<le> e" and "e \<le> 971"
  shows "to_double m e = (if m = 0 then Finite 0 0 else Finite m e)"
proof (cases "m = 0")
  case True
  then show ?thesis by (simp add: to_double_def)
next
  case False
  from bit_length_le [OF assms(1)] have b: "int (bit_length \<bar>m\<bar>) \<le> 53" by simp
  with assms(2) have k: "\<not> 0 < max (int (bit_length \<bar>m\<bar>) - 53) (- 1074 - e)" by simp
  from b assms(3) have o: "\<not> 1024 < int (bit_length \<bar>m\<bar>) + e" by simp
  have s: "sgn m * \<bar>m\<bar> = m" by (simp add: mult_sgn_abs)
  from False k o s show ?thesis
    by (simp add: to_double_def Let_def del: max_less_iff_conj)
qed

lemma number_times_examples:
  "number_times (Finite 7205759403792794 (- 56)) (Finite 3 0) = Finite 5404319552844596 (- 54)"
  "number_times (Finite 4526117625507348 (- 52)) (Finite 100 0) = Finite 7072058789855231 (- 46)"
  "number_times (Finite 9007199254740991 971) (Finite 100 0) = Infinity False"
  "number_times (Finite 3 (- 1074)) (Finite 1 (- 1)) = Finite 2 (- 1074)"
  by code_simp+














lemma nearest_binary64_unique:
  assumes "nearest_binary64 x p" and "nearest_binary64 x p'"
  shows "p = p'"
proof (rule ccontr)
  assume ne: "p \<noteq> p'"
  from assms have b: "is_binary64 p" "is_binary64 p'"
    and le: "\<bar>p - x\<bar> \<le> \<bar>p' - x\<bar>" "\<bar>p' - x\<bar> \<le> \<bar>p - x\<bar>"
    by (auto simp: nearest_binary64_def)
  then have eq: "\<bar>p' - x\<bar> = \<bar>p - x\<bar>" by simp
  define g where "g = \<bar>p' - p\<bar>"
  have g: "0 < g" using ne by (simp add: g_def)
  from assms(1) b(2) ne eq obtain j where j: "p = of_int (2 * j) * g"
    unfolding nearest_binary64_def g_def by metis
  have "\<bar>p - p'\<bar> = g" by (simp add: g_def abs_minus_commute)
  with assms(2) b(1) ne eq obtain j' where j': "p' = of_int (2 * j') * g"
    unfolding nearest_binary64_def by metis
  define c :: rat where "c = of_int (2 * (j' - j))"
  have d: "p' - p = c * g"
    by (simp add: j j' c_def algebra_simps)
  have "g = \<bar>c * g\<bar>"
    unfolding d [symmetric] by (simp add: g_def)
  also have "\<dots> = \<bar>c\<bar> * g"
    using g by (simp add: abs_mult)
  finally have "\<bar>c\<bar> * g = 1 * g" by simp
  then have "\<bar>c\<bar> = 1"
    using g by (simp only: mult_cancel_right) simp
  then have "\<bar>(of_int (2 * (j' - j)) :: rat)\<bar> = 1" by (simp only: c_def)
  then have "(of_int \<bar>2 * (j' - j)\<bar> :: rat) = of_int 1"
    by (simp only: of_int_abs of_int_1)
  then have "\<bar>2 * (j' - j)\<bar> = 1" by (simp only: of_int_eq_iff)
  then show False by presburger
qed




subsection \<open>slippageToleranceToPercent\<close>

text \<open>Not-a-number and the infinities have no percent: the constructor raises.\<close>

lemma slippageToleranceToPercent_not_finite:
  "slippageToleranceToPercent NaN = Inl RangeError"
  "slippageToleranceToPercent (Infinity s) = Inl RangeError"
  by (simp_all add: slippageToleranceToPercent_def new_Percent_def)






subsection \<open>tradeToTransactionInfo\<close>


lemma slippageToleranceToPercent_denominator:
  "slippageToleranceToPercent s = Inr p \<Longrightarrow> denominator p = 10000"
  by (auto simp: slippageToleranceToPercent_def new_Percent_def Let_def split: sum.splits)

lemma one_plus_slippage:
  "Fraction_add (Fraction_of 1) p =
     \<lparr>numerator = denominator p + numerator p, denominator = denominator p\<rparr>"
  by (auto simp: Fraction_add_def Fraction_of_def)

lemma JSBI_divide_nonneg:
  "0 \<le> a \<Longrightarrow> 0 < b \<Longrightarrow> JSBI_divide a b = Inr (a div b)"
  by (simp add: JSBI_divide_def sgn_if)

lemma minimumAmountOut_le:
  assumes "minimumAmountOut trade p = Inr mn"
    and "0 < denominator p"
    and "0 \<le> quotient' (outputAmount trade)"
  shows "quotient' mn \<le> quotient' (outputAmount trade)"
proof (cases "tradeType trade = EXACT_OUTPUT")
  case True
  with assms(1) show ?thesis
    by (simp add: minimumAmountOut_def split: if_splits)
next
  case False
  define q where "q = quotient' (outputAmount trade)"
  define d where "d = denominator p"
  define n where "n = numerator p"
  from assms(1) have nn: "0 \<le> n"
    using assms(2)
    by (auto simp: minimumAmountOut_def Fraction_lessThan_def Fraction_of_def n_def
        split: if_splits)
  have pos: "0 < d + n" using nn assms(2) by (simp add: d_def)
  have num: "0 \<le> d * q" using assms(2,3) by (simp add: d_def q_def)
  have quot: "Fraction_quotient
          (Fraction_multiply (Fraction_invert (Fraction_add (Fraction_of 1) p))
             (Fraction_of q)) = Inr ((d * q) div (d + n))"
    using JSBI_divide_nonneg [OF num pos]
    by (simp add: one_plus_slippage [unfolded Fraction_of_def] Fraction_invert_def Fraction_multiply_def
        Fraction_quotient_def Fraction_of_def d_def n_def)
  from assms(1) False nn have mn: "quotient' mn = (d * q) div (d + n)"
    by (auto simp: minimumAmountOut_def quot [unfolded q_def] fromRawAmount_def q_def
        split: if_splits)
  have "d * q \<le> (d + n) * q"
    using nn assms(3) by (simp add: q_def mult_right_mono)
  then have "(d * q) div (d + n) \<le> ((d + n) * q) div (d + n)"
    by (rule zdiv_mono1) (rule pos)
  also have "\<dots> = q" using pos by simp
  finally show ?thesis by (simp add: mn q_def)
qed

lemma maximumAmountIn_ge:
  assumes "maximumAmountIn trade p = Inr mx"
    and "0 < denominator p"
    and "0 \<le> quotient' (inputAmount trade)"
  shows "quotient' (inputAmount trade) \<le> quotient' mx"
proof (cases "tradeType trade = EXACT_INPUT")
  case True
  with assms(1) show ?thesis
    by (simp add: maximumAmountIn_def split: if_splits)
next
  case False
  define q where "q = quotient' (inputAmount trade)"
  define d where "d = denominator p"
  define n where "n = numerator p"
  have dpos: "0 < d" using assms(2) by (simp add: d_def)
  from assms(1) have nn: "0 \<le> n"
    using assms(2)
    by (auto simp: maximumAmountIn_def Fraction_lessThan_def Fraction_of_def n_def
        split: if_splits)
  have num: "0 \<le> (d + n) * q" using nn dpos assms(3) by (simp add: q_def)
  have quot: "Fraction_quotient
          (Fraction_multiply (Fraction_add (Fraction_of 1) p) (Fraction_of q))
          = Inr (((d + n) * q) div d)"
    using JSBI_divide_nonneg [OF num dpos]
    by (simp add: one_plus_slippage [unfolded Fraction_of_def] Fraction_multiply_def
        Fraction_quotient_def Fraction_of_def d_def n_def)
  from assms(1) False nn have mx: "quotient' mx = ((d + n) * q) div d"
    by (auto simp: maximumAmountIn_def quot [unfolded q_def] fromRawAmount_def q_def
        split: if_splits)
  have "d * q \<le> (d + n) * q"
    using nn assms(3) by (simp add: q_def mult_right_mono)
  then have "(d * q) div d \<le> ((d + n) * q) div d"
    by (rule zdiv_mono1) (rule dpos)
  moreover have "(d * q) div d = q" using dpos by simp
  ultimately show ?thesis by (simp add: mx q_def)
qed

lemma tradeToTransactionInfo_EXACT_INPUT:
  assumes "tradeToTransactionInfo currencyId trade = Inr info"
    and "tradeType trade = EXACT_INPUT"
  shows "\<exists>p mn. slippageToleranceToPercent (slippageTolerance trade) = Inr p
           \<and> minimumAmountOut trade p = Inr mn
           \<and> info = ExactInputSwapTransactionInfo Swap
                  (currencyId (currency (inputAmount trade)))
                  (currencyId (currency (outputAmount trade)))
                  EXACT_INPUT
                  (decimal_string (quotient' (inputAmount trade)))
                  (decimal_string (quotient' (outputAmount trade)))
                  (decimal_string (quotient' mn))"
  using assms by (auto simp: tradeToTransactionInfo_def split: sum.splits)

lemma tradeToTransactionInfo_EXACT_OUTPUT:
  assumes "tradeToTransactionInfo currencyId trade = Inr info"
    and "tradeType trade = EXACT_OUTPUT"
  shows "\<exists>p mx. slippageToleranceToPercent (slippageTolerance trade) = Inr p
           \<and> maximumAmountIn trade p = Inr mx
           \<and> info = ExactOutputSwapTransactionInfo Swap
                  (currencyId (currency (inputAmount trade)))
                  (currencyId (currency (outputAmount trade)))
                  EXACT_OUTPUT
                  (decimal_string (quotient' (outputAmount trade)))
                  (decimal_string (quotient' (inputAmount trade)))
                  (decimal_string (quotient' mx))"
  using assms by (auto simp: tradeToTransactionInfo_def split: sum.splits)

text \<open>A slippage tolerance that rounds to a negative number of basis points is rejected by
  the SDK: no record is returned.\<close>

lemma tradeToTransactionInfo_negative_slippage:
  assumes "slippageToleranceToPercent (slippageTolerance trade) = Inr p" and "numerator p < 0"
  shows "tradeToTransactionInfo currencyId trade = Inl SLIPPAGE_TOLERANCE"
  using assms slippageToleranceToPercent_denominator [OF assms(1)]
  by (simp add: tradeToTransactionInfo_def minimumAmountOut_def maximumAmountIn_def
      Fraction_lessThan_def Fraction_of_def)

text \<open>
  Claim C1, as amended. In the record \<open>tradeToTransactionInfo\<close> returns, read as integers:
  for a trade of exact-input type whose expected output is not negative,
  \<open>minimumOutputCurrencyAmountRaw\<close> is at most \<open>expectedOutputCurrencyAmountRaw\<close>; for a
  trade of exact-output type whose expected input is not negative,
  \<open>maximumInputCurrencyAmountRaw\<close> is at least \<open>expectedInputCurrencyAmountRaw\<close>.
\<close>

theorem tradeToTransactionInfo_slippage_bounds:
  assumes "tradeToTransactionInfo currencyId trade = Inr info"
  shows "(tradeType trade = EXACT_INPUT \<and> 0 \<le> quotient' (outputAmount trade) \<longrightarrow>
            (\<exists>minimum expected.
               decimal_value (minimumOutputCurrencyAmountRaw info) = Some minimum
               \<and> decimal_value (expectedOutputCurrencyAmountRaw info) = Some expected
               \<and> minimum \<le> expected))
       \<and> (tradeType trade = EXACT_OUTPUT \<and> 0 \<le> quotient' (inputAmount trade) \<longrightarrow>
            (\<exists>maximum expected.
               decimal_value (maximumInputCurrencyAmountRaw info) = Some maximum
               \<and> decimal_value (expectedInputCurrencyAmountRaw info) = Some expected
               \<and> expected \<le> maximum))"
proof (intro conjI impI)
  assume "tradeType trade = EXACT_INPUT \<and> 0 \<le> quotient' (outputAmount trade)"
  then have t: "tradeType trade = EXACT_INPUT" and nn: "0 \<le> quotient' (outputAmount trade)"
    by simp_all
  from tradeToTransactionInfo_EXACT_INPUT [OF assms t]
  obtain p mn where p: "slippageToleranceToPercent (slippageTolerance trade) = Inr p"
    and mn: "minimumAmountOut trade p = Inr mn"
    and info: "minimumOutputCurrencyAmountRaw info = decimal_string (quotient' mn)"
      "expectedOutputCurrencyAmountRaw info = decimal_string (quotient' (outputAmount trade))"
    by auto
  have "0 < denominator p"
    using slippageToleranceToPercent_denominator [OF p] by simp
  from minimumAmountOut_le [OF mn this nn] info
  show "\<exists>minimum expected.
          decimal_value (minimumOutputCurrencyAmountRaw info) = Some minimum
          \<and> decimal_value (expectedOutputCurrencyAmountRaw info) = Some expected
          \<and> minimum \<le> expected"
    by (simp add: decimal_value_decimal_string)
next
  assume "tradeType trade = EXACT_OUTPUT \<and> 0 \<le> quotient' (inputAmount trade)"
  then have t: "tradeType trade = EXACT_OUTPUT" and nn: "0 \<le> quotient' (inputAmount trade)"
    by simp_all
  from tradeToTransactionInfo_EXACT_OUTPUT [OF assms t]
  obtain p mx where p: "slippageToleranceToPercent (slippageTolerance trade) = Inr p"
    and mx: "maximumAmountIn trade p = Inr mx"
    and info: "maximumInputCurrencyAmountRaw info = decimal_string (quotient' mx)"
      "expectedInputCurrencyAmountRaw info = decimal_string (quotient' (inputAmount trade))"
    by auto
  have "0 < denominator p"
    using slippageToleranceToPercent_denominator [OF p] by simp
  from maximumAmountIn_ge [OF mx this nn] info
  show "\<exists>maximum expected.
          decimal_value (maximumInputCurrencyAmountRaw info) = Some maximum
          \<and> decimal_value (expectedInputCurrencyAmountRaw info) = Some expected
          \<and> expected \<le> maximum"
    by (simp add: decimal_value_decimal_string)
qed

theorem tradeToTransactionInfo_slippage_bounds_witness:
  "tradeToTransactionInfo example_currencyId (example_trade EXACT_INPUT)
     = Inr (ExactInputSwapTransactionInfo Swap ''1-0xEeeeeEeeeEeEeeEeEeEeeEEEeeeeEeeeeeeeEEeE''
              ''1-0x6B175474E89094C44Da98b954EedeAC495271d0F'' EXACT_INPUT
              ''1000'' ''2000'' ''1990'')
   \<and> (\<exists>minimum expected.
          decimal_value ''1990'' = Some minimum \<and> decimal_value ''2000'' = Some expected
          \<and> minimum \<le> expected)
   \<and> tradeToTransactionInfo example_currencyId (example_trade EXACT_OUTPUT)
     = Inr (ExactOutputSwapTransactionInfo Swap ''1-0xEeeeeEeeeEeEeeEeEeEeeEEEeeeeEeeeeeeeEEeE''
              ''1-0x6B175474E89094C44Da98b954EedeAC495271d0F'' EXACT_OUTPUT
              ''2000'' ''1000'' ''1005'')
   \<and> (\<exists>maximum expected.
          decimal_value ''1005'' = Some maximum \<and> decimal_value ''1000'' = Some expected
          \<and> expected \<le> maximum)"
proof -
  have h: "tradeToTransactionInfo example_currencyId (example_trade EXACT_INPUT)
     = Inr (ExactInputSwapTransactionInfo Swap ''1-0xEeeeeEeeeEeEeeEeEeEeeEEEeeeeEeeeeeeeEEeE''
              ''1-0x6B175474E89094C44Da98b954EedeAC495271d0F'' EXACT_INPUT
              ''1000'' ''2000'' ''1990'')"
    by code_simp
  have g: "tradeToTransactionInfo example_currencyId (example_trade EXACT_OUTPUT)
     = Inr (ExactOutputSwapTransactionInfo Swap ''1-0xEeeeeEeeeEeEeeEeEeEeeEEEeeeeEeeeeeeeEEeE''
              ''1-0x6B175474E89094C44Da98b954EedeAC495271d0F'' EXACT_OUTPUT
              ''2000'' ''1000'' ''1005'')"
    by code_simp
  from tradeToTransactionInfo_slippage_bounds [OF h]
    tradeToTransactionInfo_slippage_bounds [OF g] h g
  show ?thesis by simp
qed

text \<open>
  For a negative amount the claim fails: the big-integer division truncates towards
  zero, so an exact-input trade with the expected output \<open>- 2000\<close> and a slippage tolerance
  of 0.5 gets the minimum \<open>- 1990\<close>, which is above the expected output.
\<close>

theorem tradeToTransactionInfo_negative_amount_counterexample:
  "tradeToTransactionInfo example_currencyId
       ((example_trade EXACT_INPUT)\<lparr>outputAmount := \<lparr>currency = DAI, quotient' = - 2000\<rparr>\<rparr>)
     = Inr (ExactInputSwapTransactionInfo Swap ''1-0xEeeeeEeeeEeEeeEeEeEeeEEEeeeeEeeeeeeeEEeE''
              ''1-0x6B175474E89094C44Da98b954EedeAC495271d0F'' EXACT_INPUT
              ''1000'' ''-2000'' ''-1990'')
   \<and> decimal_value ''-1990'' = Some (- 1990)
   \<and> decimal_value ''-2000'' = Some (- 2000)
   \<and> \<not> ((- 1990 :: int) \<le> - 2000)"
proof -
  have h: "tradeToTransactionInfo example_currencyId
       ((example_trade EXACT_INPUT)\<lparr>outputAmount := \<lparr>currency = DAI, quotient' = - 2000\<rparr>\<rparr>)
     = Inr (ExactInputSwapTransactionInfo Swap ''1-0xEeeeeEeeeEeEeeEeEeEeeEEEeeeeEeeeeeeeEEeE''
              ''1-0x6B175474E89094C44Da98b954EedeAC495271d0F'' EXACT_INPUT
              ''1000'' ''-2000'' ''-1990'')"
    by code_simp
  have a: "decimal_value ''-1990'' = Some (- 1990)"
    by (simp add: decimal_value_def signed_value_def unsigned_decimal_def digit_of_def)
  have b: "decimal_value ''-2000'' = Some (- 2000)"
    by (simp add: decimal_value_def signed_value_def unsigned_decimal_def digit_of_def)
  from h a b show ?thesis by simp
qed



subsection \<open>getWrapType\<close>

text \<open>On a chain without an entry in the table, a native currency on either side makes the
  function raise.\<close>

lemma getWrapType_no_table_entry:
  assumes "WRAPPED_NATIVE_CURRENCY (chainId i) = None" and "chainId i = chainId out"
    and "isNative i \<or> isNative out"
  shows "getWrapType WRAPPED_NATIVE_CURRENCY currencyId areCurrencyIdsEqual (Some i) (Some out)
           = Inl TypeError"
  using assms by (auto simp: getWrapType_def idEqualsWrapped_def)

text \<open>
  Claim C2, as amended. For every pair of (possibly absent) currencies, \<open>getWrapType\<close>
  returns \<open>NotApplicable\<close> when a currency is absent, when the two chain ids differ, and
  when the chain ids agree and neither currency is native. When the chain ids agree and
  the chain has the wrapped-native token \<open>weth\<close> in the table, it returns \<open>Wrap\<close> if the input
  is native and the output is the wrapped-native token, otherwise \<open>Unwrap\<close> if the output is
  native and the input is the wrapped-native token, otherwise \<open>NotApplicable\<close>.
\<close>

theorem getWrapType_classification:
  "getWrapType WRAPPED_NATIVE_CURRENCY currencyId areCurrencyIdsEqual None outputCurrency
     = Inr NotApplicable
   \<and> getWrapType WRAPPED_NATIVE_CURRENCY currencyId areCurrencyIdsEqual inputCurrency None
       = Inr NotApplicable
   \<and> (chainId i \<noteq> chainId out \<longrightarrow>
        getWrapType WRAPPED_NATIVE_CURRENCY currencyId areCurrencyIdsEqual (Some i) (Some out)
          = Inr NotApplicable)
   \<and> (chainId i = chainId out \<and> \<not> isNative i \<and> \<not> isNative out \<longrightarrow>
        getWrapType WRAPPED_NATIVE_CURRENCY currencyId areCurrencyIdsEqual (Some i) (Some out)
          = Inr NotApplicable)
   \<and> (chainId i = chainId out \<and> WRAPPED_NATIVE_CURRENCY (chainId i) = Some weth \<longrightarrow>
        getWrapType WRAPPED_NATIVE_CURRENCY currencyId areCurrencyIdsEqual (Some i) (Some out)
          = Inr (if isNative i \<and> areCurrencyIdsEqual (currencyId out) (currencyId weth)
                 then Wrap
                 else if isNative out \<and> areCurrencyIdsEqual (currencyId i) (currencyId weth)
                 then Unwrap
                 else NotApplicable))"
proof (intro conjI impI)
  show "getWrapType WRAPPED_NATIVE_CURRENCY currencyId areCurrencyIdsEqual None outputCurrency
          = Inr NotApplicable"
    by (simp add: getWrapType_def)
  show "getWrapType WRAPPED_NATIVE_CURRENCY currencyId areCurrencyIdsEqual inputCurrency None
          = Inr NotApplicable"
    by (simp add: getWrapType_def split: option.splits)
next
  assume "chainId i \<noteq> chainId out"
  then show "getWrapType WRAPPED_NATIVE_CURRENCY currencyId areCurrencyIdsEqual (Some i) (Some out)
          = Inr NotApplicable"
    by (simp add: getWrapType_def)
next
  assume "chainId i = chainId out \<and> \<not> isNative i \<and> \<not> isNative out"
  then show "getWrapType WRAPPED_NATIVE_CURRENCY currencyId areCurrencyIdsEqual (Some i) (Some out)
          = Inr NotApplicable"
    by (simp add: getWrapType_def Let_def)
next
  assume a: "chainId i = chainId out \<and> WRAPPED_NATIVE_CURRENCY (chainId i) = Some weth"
  then have c: "chainId i = chainId out" and w: "WRAPPED_NATIVE_CURRENCY (chainId i) = Some weth"
    by blast+
  from w have t: "WRAPPED_NATIVE_CURRENCY (chainId out) = Some weth"
    unfolding c .
  from a show "getWrapType WRAPPED_NATIVE_CURRENCY currencyId areCurrencyIdsEqual (Some i) (Some out)
          = Inr (if isNative i \<and> areCurrencyIdsEqual (currencyId out) (currencyId weth)
                 then Wrap
                 else if isNative out \<and> areCurrencyIdsEqual (currencyId i) (currencyId weth)
                 then Unwrap
                 else NotApplicable)"
    by (simp add: getWrapType_def idEqualsWrapped_def Let_def t)
qed

theorem getWrapType_classification_witness:
  "getWrapType example_table example_currencyId example_areEqual (Some ETH) (Some WETH) = Inr Wrap
   \<and> getWrapType example_table example_currencyId example_areEqual (Some WETH) (Some ETH)
       = Inr Unwrap
   \<and> getWrapType example_table example_currencyId example_areEqual (Some ETH) (Some DAI)
       = Inr NotApplicable
   \<and> getWrapType example_table example_currencyId example_areEqual (Some DAI) (Some WETH)
       = Inr NotApplicable
   \<and> getWrapType example_table example_currencyId example_areEqual
        (Some (ETH\<lparr>chainId := 5\<rparr>)) (Some WETH)
       = Inr NotApplicable
   \<and> getWrapType example_table example_currencyId example_areEqual None (Some WETH)
       = Inr NotApplicable"
proof -
  have dai: "\<not> example_areEqual (example_currencyId DAI) (example_currencyId WETH)"
    by code_simp
  have eth: "\<not> example_areEqual (example_currencyId ETH) (example_currencyId WETH)"
    by code_simp
  have weth: "example_areEqual (example_currencyId WETH) (example_currencyId WETH)"
    by simp
  note a = getWrapType_classification [of example_table example_currencyId example_areEqual
      "Some WETH" None ETH WETH WETH]
  note b = getWrapType_classification [of example_table example_currencyId example_areEqual
      "Some WETH" None WETH ETH WETH]
  note c = getWrapType_classification [of example_table example_currencyId example_areEqual
      "Some WETH" None ETH DAI WETH]
  note d = getWrapType_classification [of example_table example_currencyId example_areEqual
      "Some WETH" None DAI WETH WETH]
  note e = getWrapType_classification [of example_table example_currencyId example_areEqual
      "Some WETH" None "ETH\<lparr>chainId := 5\<rparr>" WETH WETH]
  have 1: "getWrapType example_table example_currencyId example_areEqual (Some ETH) (Some WETH)
      = Inr Wrap"
    using a weth by simp
  have 2: "getWrapType example_table example_currencyId example_areEqual (Some WETH) (Some ETH)
      = Inr Unwrap"
    using b weth eth by simp
  have 3: "getWrapType example_table example_currencyId example_areEqual (Some ETH) (Some DAI)
      = Inr NotApplicable"
    using c dai eth by simp
  have 4: "getWrapType example_table example_currencyId example_areEqual (Some DAI) (Some WETH)
      = Inr NotApplicable"
    using d by simp
  have 5: "getWrapType example_table example_currencyId example_areEqual
        (Some (ETH\<lparr>chainId := 5\<rparr>)) (Some WETH) = Inr NotApplicable"
    using e by simp
  have 6: "getWrapType example_table example_currencyId example_areEqual None (Some WETH)
      = Inr NotApplicable"
    using a by simp
  from 1 2 3 4 5 6 show ?thesis by simp
qed

text \<open>
  For every pair the claim fails: a native input and a token on chain 5, which has no
  entry in the example table, do not give \<open>NotApplicable\<close>; the lookup gives \<^verbatim>\<open>undefined\<close> and
  the function raises.
\<close>

theorem getWrapType_missing_entry_counterexample:
  "example_table 5 = None
   \<and> getWrapType example_table example_currencyId example_areEqual
        (Some (ETH\<lparr>chainId := 5\<rparr>)) (Some (DAI\<lparr>chainId := 5\<rparr>))
       = Inl TypeError
   \<and> getWrapType example_table example_currencyId example_areEqual
        (Some (ETH\<lparr>chainId := 5\<rparr>)) (Some (DAI\<lparr>chainId := 5\<rparr>))
       \<noteq> Inr NotApplicable"
  by (simp add: getWrapType_def idEqualsWrapped_def)

subsection \<open>clearStaleTrades\<close>

text \<open>
  Claim C6. \<open>clearStaleTrades\<close> returns the trade it was given exactly when both selected
  currencies are present and their wrapped addresses equal, under \<open>areAddressesEqual\<close>,
  the wrapped addresses of the trade's input and output currencies; on a mismatch, or
  when a selected currency is absent, it returns \<open>null\<close>. (A token's address is not the
  empty string.)
\<close>

theorem clearStaleTrades_spec:
  assumes "\<And>c. currencyIn = Some c \<Longrightarrow> address (wrapped c) \<noteq> []"
    and "\<And>c. currencyOut = Some c \<Longrightarrow> address (wrapped c) \<noteq> []"
  shows "clearStaleTrades areAddressesEqual trade currencyIn currencyOut =
           (if \<exists>cin cout. currencyIn = Some cin \<and> currencyOut = Some cout
                 \<and> areAddressesEqual (address (wrapped cin))
                      (address (wrapped (currency (inputAmount trade))))
                 \<and> areAddressesEqual (address (wrapped cout))
                      (address (wrapped (currency (outputAmount trade))))
            then Some trade else None)"
  using assms
  by (cases currencyIn; cases currencyOut) (auto simp: clearStaleTrades_def truthy_def)

theorem clearStaleTrades_spec_witness:
  "clearStaleTrades example_areEqual (example_trade EXACT_INPUT)
       (Some (WETH\<lparr>wrapped := \<lparr>address = ''0xc02aaa39b223fe8d0a0e5c4f27ead9083c756cc2''\<rparr>\<rparr>))
       (Some DAI)
     = Some (example_trade EXACT_INPUT)
   \<and> clearStaleTrades example_areEqual (example_trade EXACT_INPUT) (Some ETH) (Some WETH) = None
   \<and> clearStaleTrades example_areEqual (example_trade EXACT_INPUT) None (Some DAI) = None"
proof -
  have same: "example_areEqual ''0xc02aaa39b223fe8d0a0e5c4f27ead9083c756cc2''
                ''0xC02aaA39b223FE8D0A0e5C4F27eAD9083C756Cc2''"
    by code_simp
  have other: "\<not> example_areEqual ''0xC02aaA39b223FE8D0A0e5C4F27eAD9083C756Cc2''
                ''0x6B175474E89094C44Da98b954EedeAC495271d0F''"
    by code_simp
  have 1: "clearStaleTrades example_areEqual (example_trade EXACT_INPUT)
       (Some (WETH\<lparr>wrapped := \<lparr>address = ''0xc02aaa39b223fe8d0a0e5c4f27ead9083c756cc2''\<rparr>\<rparr>))
       (Some DAI)
     = Some (example_trade EXACT_INPUT)"
    using clearStaleTrades_spec [of
        "Some (WETH\<lparr>wrapped := \<lparr>address = ''0xc02aaa39b223fe8d0a0e5c4f27ead9083c756cc2''\<rparr>\<rparr>)"
        "Some DAI" example_areEqual "example_trade EXACT_INPUT"] same
    by simp
  have 2: "clearStaleTrades example_areEqual (example_trade EXACT_INPUT) (Some ETH) (Some WETH)
     = None"
    using clearStaleTrades_spec [of "Some ETH" "Some WETH" example_areEqual
        "example_trade EXACT_INPUT"] other
    by simp
  have 3: "clearStaleTrades example_areEqual (example_trade EXACT_INPUT) None (Some DAI) = None"
    using clearStaleTrades_spec [of None "Some DAI" example_areEqual
        "example_trade EXACT_INPUT"]
    by simp
  from 1 2 3 show ?thesis by simp
qed

subsection \<open>requireAcceptNewTrade\<close>

text \<open>
  Claim C7. \<open>requireAcceptNewTrade\<close> is true exactly when the quote calldata of the two
  trades differ: it is false when both trades have the same calldata string and when
  neither has calldata (the trade, its quote or the quote's method parameters being
  absent), and true otherwise. The result is the inequality of the two optional chains
  \<^verbatim>\<open>trade?.quote?.methodParameters?.calldata\<close>.
\<close>

theorem requireAcceptNewTrade_spec:
  "requireAcceptNewTrade oldTrade newTrade
     = (\<not> ((\<exists>c. has_calldata oldTrade c \<and> has_calldata newTrade c)
           \<or> ((\<forall>c. \<not> has_calldata oldTrade c) \<and> (\<forall>c. \<not> has_calldata newTrade c))))
   \<and> requireAcceptNewTrade oldTrade newTrade
       = (map_option calldata (Option.bind (Option.bind oldTrade quote) methodParameters)
            \<noteq> map_option calldata (Option.bind (Option.bind newTrade quote) methodParameters))
   \<and> \<not> requireAcceptNewTrade None None"
proof -
  have c: "calldata_of t = map_option calldata (Option.bind (Option.bind t quote) methodParameters)"
    for t
    by (simp add: calldata_of_def split: option.splits)
  have h: "has_calldata t x = (calldata_of t = Some x)" for t x
    by (auto simp: has_calldata_def calldata_of_def split: option.splits)
  have 1: "requireAcceptNewTrade oldTrade newTrade
     = (\<not> ((\<exists>c. has_calldata oldTrade c \<and> has_calldata newTrade c)
           \<or> ((\<forall>c. \<not> has_calldata oldTrade c) \<and> (\<forall>c. \<not> has_calldata newTrade c))))"
    unfolding h requireAcceptNewTrade_def
    by (cases "calldata_of oldTrade"; cases "calldata_of newTrade") auto
  have 2: "requireAcceptNewTrade oldTrade newTrade
       = (map_option calldata (Option.bind (Option.bind oldTrade quote) methodParameters)
            \<noteq> map_option calldata (Option.bind (Option.bind newTrade quote) methodParameters))"
    by (simp add: requireAcceptNewTrade_def c)
  have 3: "\<not> requireAcceptNewTrade None None"
    by (simp add: requireAcceptNewTrade_def)
  from 1 2 3 show ?thesis by blast
qed

theorem requireAcceptNewTrade_spec_witness:
  "\<not> requireAcceptNewTrade (Some (example_trade EXACT_INPUT)) (Some (example_trade EXACT_INPUT))
   \<and> \<not> requireAcceptNewTrade None None
   \<and> \<not> requireAcceptNewTrade None (Some ((example_trade EXACT_INPUT)\<lparr>quote := None\<rparr>))
   \<and> \<not> requireAcceptNewTrade None
         (Some ((example_trade EXACT_INPUT)\<lparr>quote := Some \<lparr>methodParameters = None\<rparr>\<rparr>))
   \<and> requireAcceptNewTrade
         (Some ((example_trade EXACT_INPUT)\<lparr>quote := Some \<lparr>methodParameters = None\<rparr>\<rparr>))
         (Some ((example_trade EXACT_INPUT)\<lparr>quote := example_quote []\<rparr>))
   \<and> requireAcceptNewTrade (Some (example_trade EXACT_INPUT))
        (Some ((example_trade EXACT_INPUT)\<lparr>quote := example_quote ''0x24856bc3''\<rparr>))
   \<and> requireAcceptNewTrade None (Some (example_trade EXACT_INPUT))"
proof -
  note r = requireAcceptNewTrade_spec [THEN conjunct2, THEN conjunct1]
  show ?thesis
    using
      r [of "Some (example_trade EXACT_INPUT)" "Some (example_trade EXACT_INPUT)"]
      r [of None None]
      r [of None "Some ((example_trade EXACT_INPUT)\<lparr>quote := None\<rparr>)"]
      r [of None
        "Some ((example_trade EXACT_INPUT)\<lparr>quote := Some \<lparr>methodParameters = None\<rparr>\<rparr>)"]
      r [of "Some ((example_trade EXACT_INPUT)\<lparr>quote := Some \<lparr>methodParameters = None\<rparr>\<rparr>)"
        "Some ((example_trade EXACT_INPUT)\<lparr>quote := example_quote []\<rparr>)"]
      r [of "Some (example_trade EXACT_INPUT)"
        "Some ((example_trade EXACT_INPUT)\<lparr>quote := example_quote ''0x24856bc3''\<rparr>)"]
      r [of None "Some (example_trade EXACT_INPUT)"]
    by simp
qed

subsection \<open>getSwapMethodParameters\<close>

text \<open>
  Claim C8. \<open>getSwapMethodParameters\<close> makes the universal-router SDK call exactly when
  \<open>universalRouterEnabled\<close> is set or a permit2 signature is present, with the permit2
  signature in the options when it is present; otherwise it makes the legacy router SDK
  call, with the raw permit in the options exactly when \<open>permitInfo\<close> is provided.
\<close>

theorem getSwapMethodParameters_selection:
  assumes "slippageToleranceToPercent (slippageTolerance trade) = Inr pct"
  shows "getSwapMethodParameters permit2Signature trade recipient_address permitInfo
           universalRouterEnabled =
         Inr (if universalRouterEnabled \<or> permit2Signature \<noteq> None
              then UniversalSwapRouter_swapERC20CallParameters trade
                     \<lparr>slippageToleranceOption = pct, recipient = recipient_address,
                      inputTokenPermit =
                        map_option (\<lambda>p. Permit2Permit (signature p) (permitMessage p))
                          permit2Signature\<rparr>
              else SwapRouter_swapCallParameters trade
                     \<lparr>slippageToleranceOption = pct, recipient = recipient_address,
                      inputTokenPermit = permitInfo\<rparr>)"
  using assms
  by (auto simp: getSwapMethodParameters_def split: option.splits)

theorem getSwapMethodParameters_selection_witness:
  "getSwapMethodParameters (Some \<lparr>signature = ''0xabcd'', permitMessage = ''permit-single''\<rparr>)
       (example_trade EXACT_INPUT) ''0x1111'' (Some ''raw-permit'') False
     = Inr (UniversalSwapRouter_swapERC20CallParameters (example_trade EXACT_INPUT)
              \<lparr>slippageToleranceOption = \<lparr>numerator = 50, denominator = 10000\<rparr>,
               recipient = ''0x1111'',
               inputTokenPermit = Some (Permit2Permit ''0xabcd'' ''permit-single'')\<rparr>)
   \<and> getSwapMethodParameters (None :: string PermitSignatureInfo option)
       (example_trade EXACT_INPUT) ''0x1111'' (Some ''raw-permit'') False
     = Inr (SwapRouter_swapCallParameters (example_trade EXACT_INPUT)
              \<lparr>slippageToleranceOption = \<lparr>numerator = 50, denominator = 10000\<rparr>,
               recipient = ''0x1111'', inputTokenPermit = Some ''raw-permit''\<rparr>)
   \<and> getSwapMethodParameters (None :: string PermitSignatureInfo option)
       (example_trade EXACT_INPUT) ''0x1111'' (None :: string option) True
     = Inr (UniversalSwapRouter_swapERC20CallParameters (example_trade EXACT_INPUT)
              \<lparr>slippageToleranceOption = \<lparr>numerator = 50, denominator = 10000\<rparr>,
               recipient = ''0x1111'', inputTokenPermit = None\<rparr>)"
proof -
  have p: "slippageToleranceToPercent (slippageTolerance (example_trade EXACT_INPUT))
             = Inr \<lparr>numerator = 50, denominator = 10000\<rparr>"
    by code_simp
  show ?thesis
    using
      getSwapMethodParameters_selection [OF p,
        of "Some \<lparr>signature = ''0xabcd'', permitMessage = ''permit-single''\<rparr>" "''0x1111''"
          "Some ''raw-permit''" False]
      getSwapMethodParameters_selection [OF p,
        of "None :: string PermitSignatureInfo option" "''0x1111''" "Some ''raw-permit''" False]
      getSwapMethodParameters_selection [OF p,
        of "None :: string PermitSignatureInfo option" "''0x1111''" "None :: string option" True]
    by simp
qed

subsection \<open>getRateToDisplay\<close>

text \<open>
  Claim C9. \<open>getRateToDisplay\<close> formats the execution price inverted when the boolean is
  true and as it is when the boolean is false, and returns \<open>1 X = Y Z\<close> where \<open>Y\<close> is the
  formatted price, \<open>X\<close> is the symbol of the base currency of the price that was formatted
  and \<open>Z\<close> the symbol of its quote currency.
\<close>

theorem getRateToDisplay_orientation:
  "getRateToDisplay formatPrice trade showInverseRate =
     (let price = (if showInverseRate then Price_invert (executionPrice trade)
                   else executionPrice trade)
      in ''1 '' @ template (symbol (baseCurrency price)) @ '' = '' @ formatPrice price
           @ '' '' @ template (symbol (quoteCurrency price)))"
  by (simp add: getRateToDisplay_def Price_invert_def Let_def)

theorem getRateToDisplay_orientation_witness:
  "getRateToDisplay (\<lambda>p. decimal_string (numerator p) @ ''/'' @ decimal_string (denominator p))
       (example_trade EXACT_INPUT) True
     = ''1 DAI = 1000/2000 ETH''
   \<and> getRateToDisplay (\<lambda>p. decimal_string (numerator p) @ ''/'' @ decimal_string (denominator p))
       (example_trade EXACT_INPUT) False
     = ''1 ETH = 2000/1000 DAI''"
proof -
  have d: "decimal_string 1000 = ''1000''" "decimal_string 2000 = ''2000''"
    by code_simp+
  show ?thesis
    using
      getRateToDisplay_orientation [of
        "\<lambda>p. decimal_string (numerator p) @ ''/'' @ decimal_string (denominator p)"
        "example_trade EXACT_INPUT" True]
      getRateToDisplay_orientation [of
        "\<lambda>p. decimal_string (numerator p) @ ''/'' @ decimal_string (denominator p)"
        "example_trade EXACT_INPUT" False]
    by (simp add: Price_invert_def template_def d)
qed

end
